theory Spec2Isabelle
  imports Complex_Main "HOL-Library.Sublist"
begin

section \<open>Python values used by the application\<close>

text \<open>
  The application is a Flask program (\<^verbatim>\<open>app.py\<close>).  A Python string is the list of
  its code points; \<open>ustr\<close> turns a piece of ASCII text into one.  Python integers are
  \<open>int\<close>.  Every exception that the modelled code can raise is a value of
  \<open>py_error\<close>; a function that may raise returns \<open>py_error + 'a\<close>.
\<close>

type_synonym pystr = "nat list"

definition ustr :: "string \<Rightarrow> pystr" where
  "ustr s = map of_char s"

datatype py_error = ValueError | OverflowError | AttributeError | IndexError

definition then_do :: "py_error + 'a \<Rightarrow> ('a \<Rightarrow> py_error + 'b) \<Rightarrow> py_error + 'b" where
  "then_do r f = (case r of Inl e \<Rightarrow> Inl e | Inr v \<Rightarrow> f v)"

text \<open>
  What the model takes from Python's library and from the Unicode database without
  looking inside: the code points of the digit zero of every block of decimal digits
  beyond ASCII (a block is ten consecutive code points, the digits 0 to 9), the
  method \<^verbatim>\<open>str.lower\<close>, the test \<^verbatim>\<open>str.isalnum\<close> of a character,
  \<^verbatim>\<open>SequenceMatcher(None, a, b).ratio()\<close> and the addition of two floats.  A float is
  the rational number it denotes, so that comparing floats is comparing rationals.
\<close>

record pylib =
  nd_zeros :: "nat list"
  str_lower :: "pystr \<Rightarrow> pystr"
  is_alnum :: "nat \<Rightarrow> bool"
  sequence_ratio :: "pystr \<Rightarrow> pystr \<Rightarrow> rat"
  float_add :: "rat \<Rightarrow> rat \<Rightarrow> rat"

definition en_dash :: pystr where
  "en_dash = [8211]"

text \<open>
  The white space of \<^verbatim>\<open>str.strip()\<close>, \<^verbatim>\<open>str.split()\<close> and \<^verbatim>\<open>str.isspace()\<close>: the
  ASCII controls and the blank, and the Unicode separators.
\<close>

definition isspace :: "nat \<Rightarrow> bool" where
  "isspace c = (c \<in> set [9, 10, 11, 12, 13, 28, 29, 30, 31, 32, 133, 160, 5760,
     8192, 8193, 8194, 8195, 8196, 8197, 8198, 8199, 8200, 8201, 8202,
     8232, 8233, 8239, 8287, 12288])"

text \<open>
  The decimal digits, which are what \<^verbatim>\<open>\d\<close> matches in a regular expression and
  what \<^verbatim>\<open>int\<close> reads: the value of a digit is its distance from the zero of its
  block.
\<close>

definition decimal :: "pylib \<Rightarrow> nat \<Rightarrow> nat option" where
  "decimal L c =
     (if 48 \<le> c \<and> c \<le> 57 then Some (c - 48)
      else map_option (\<lambda>z. c - z) (find (\<lambda>z. z \<le> c \<and> c < z + 10) (nd_zeros L)))"

definition isdigit :: "pylib \<Rightarrow> nat \<Rightarrow> bool" where
  "isdigit L c = (decimal L c \<noteq> None)"

definition digit_val :: "pylib \<Rightarrow> nat \<Rightarrow> nat" where
  "digit_val L c = (case decimal L c of None \<Rightarrow> 0 | Some v \<Rightarrow> v)"

definition digit_char :: "nat \<Rightarrow> nat" where
  "digit_char n = 48 + n mod 10"

definition strip :: "pystr \<Rightarrow> pystr" where
  "strip s = rev (dropWhile isspace (rev (dropWhile isspace s)))"

text \<open>\<^verbatim>\<open>sub in s\<close> on strings: \<open>sub\<close> occurs in \<open>s\<close> as a contiguous block.\<close>

fun str_in :: "pystr \<Rightarrow> pystr \<Rightarrow> bool" where
  "str_in sub [] = (sub = [])"
| "str_in sub (c # cs) = (prefix sub (c # cs) \<or> str_in sub cs)"

text \<open>
  \<^verbatim>\<open>s.split(sep)\<close> for a non-empty separator: the pieces between the occurrences of
  \<open>sep\<close>, found from the left without overlap.  (Python raises on an empty separator;
  the program only ever splits on the en dash.)
\<close>

function split_on :: "pystr \<Rightarrow> pystr \<Rightarrow> pystr list" where
  "split_on sep s =
     (if sep = [] \<or> s = [] then [s]
      else if prefix sep s then [] # split_on sep (drop (length sep) s)
      else (case split_on sep (tl s) of
              [] \<Rightarrow> [[hd s]]
            | p # ps \<Rightarrow> (hd s # p) # ps))"
  by pat_completeness auto
termination
  by (relation "measure (\<lambda>(sep, s). length s)") auto

text \<open>\<^verbatim>\<open>s.replace(w, "")\<close> for a non-empty \<open>w\<close>.\<close>

function remove_all :: "pystr \<Rightarrow> pystr \<Rightarrow> pystr" where
  "remove_all w s =
     (if w = [] \<or> s = [] then s
      else if prefix w s then remove_all w (drop (length w) s)
      else hd s # remove_all w (tl s))"
  by pat_completeness auto
termination
  by (relation "measure (\<lambda>(w, s). length s)") auto

text \<open>\<^verbatim>\<open>s.split()\<close>: the maximal blocks of non-whitespace characters.\<close>

function split_ws :: "pystr \<Rightarrow> pystr list" where
  "split_ws s =
     (let t = dropWhile isspace s in
      if t = [] then []
      else takeWhile (\<lambda>c. \<not> isspace c) t # split_ws (dropWhile (\<lambda>c. \<not> isspace c) t))"
  by pat_completeness auto
termination
proof (relation "measure length")
  show "wf (measure length)" by simp
next
  fix s t :: pystr
  assume t: "t = dropWhile isspace s" and ne: "t \<noteq> []"
  have "length (dropWhile (\<lambda>c. \<not> isspace c) t) < length t"
  proof (cases t)
    case Nil
    with ne show ?thesis by simp
  next
    case (Cons c cs)
    have "\<not> isspace (hd (dropWhile isspace s))"
      using ne t hd_dropWhile by blast
    with t Cons have "\<not> isspace c" by (metis list.sel(1))
    with Cons show ?thesis
      by (simp add: le_imp_less_Suc length_dropWhile_le)
  qed
  also have "length t \<le> length s"
    using t by (simp add: length_dropWhile_le)
  finally show "(dropWhile (\<lambda>c. \<not> isspace c) t, s) \<in> measure length" by simp
qed

declare split_on.simps [simp del] remove_all.simps [simp del] split_ws.simps [simp del]

subsection \<open>Dates, times of day and \<^verbatim>\<open>strptime\<close>\<close>

record pydate =
  year :: nat
  month :: nat
  day :: nat

record pytime =
  hour :: nat
  minute :: nat
  second :: nat
  microsecond :: nat

text \<open>A \<^verbatim>\<open>datetime\<close> whose seconds are zero: the day's ordinal and the time of day.\<close>

record pydatetime =
  dt_ordinal :: int
  dt_hour :: int
  dt_minute :: int

definition is_leap :: "nat \<Rightarrow> bool" where
  "is_leap y = (y mod 4 = 0 \<and> (y mod 100 \<noteq> 0 \<or> y mod 400 = 0))"

definition days_in_month :: "nat \<Rightarrow> nat \<Rightarrow> nat" where
  "days_in_month y m =
     (if m = 2 then (if is_leap y then 29 else 28)
      else if m = 4 \<or> m = 6 \<or> m = 9 \<or> m = 11 then 30 else 31)"

definition MAXYEAR :: nat where
  "MAXYEAR = 9999"

definition valid_date :: "pydate \<Rightarrow> bool" where
  "valid_date d = (1 \<le> year d \<and> year d \<le> MAXYEAR \<and> 1 \<le> month d \<and> month d \<le> 12
     \<and> 1 \<le> day d \<and> day d \<le> days_in_month (year d) (month d))"

definition days_before_year :: "nat \<Rightarrow> int" where
  "days_before_year y =
     (let n = int y - 1 in n * 365 + n div 4 - n div 100 + n div 400)"

definition days_before_month :: "nat \<Rightarrow> nat \<Rightarrow> int" where
  "days_before_month y m =
     [0, 0, 31, 59, 90, 120, 151, 181, 212, 243, 273, 304, 334] ! m
     + (if m > 2 \<and> is_leap y then 1 else 0)"

definition toordinal :: "pydate \<Rightarrow> int" where
  "toordinal d = days_before_year (year d) + days_before_month (year d) (month d) + int (day d)"

definition date_max :: pydate where
  "date_max = \<lparr>year = MAXYEAR, month = 12, day = 31\<rparr>"

definition MAXORDINAL :: int where
  "MAXORDINAL = toordinal date_max"

definition date_less :: "pydate \<Rightarrow> pydate \<Rightarrow> bool" where
  "date_less a b = (year a < year b \<or> (year a = year b \<and>
     (month a < month b \<or> (month a = month b \<and> day a < day b))))"

definition time_less :: "pytime \<Rightarrow> pytime \<Rightarrow> bool" where
  "time_less a b = (hour a < hour b \<or> (hour a = hour b \<and>
     (minute a < minute b \<or> (minute a = minute b \<and>
     (second a < second b \<or> (second a = second b \<and> microsecond a < microsecond b))))))"

text \<open>
  \<^verbatim>\<open>strptime\<close> turns the format into a regular expression and takes the first match
  in the order of its alternatives.  Each directive below lists, in that order, the
  values it can read at the front of the text, each with the text that is left.  A
  character class such as \<^verbatim>\<open>[0-5]\<close> holds ASCII digits only, \<^verbatim>\<open>\d\<close> any decimal
  digit.
\<close>

fun two_chars ::
  "pylib \<Rightarrow> (nat \<Rightarrow> bool) \<Rightarrow> (nat \<Rightarrow> bool) \<Rightarrow> pystr \<Rightarrow> (nat \<times> pystr) list" where
  "two_chars L p q (a # b # r) =
     (if p a \<and> q b then [(10 * digit_val L a + digit_val L b, r)] else [])"
| "two_chars L p q _ = []"

fun one_char :: "pylib \<Rightarrow> (nat \<Rightarrow> bool) \<Rightarrow> pystr \<Rightarrow> (nat \<times> pystr) list" where
  "one_char L p (a # r) = (if p a then [(digit_val L a, r)] else [])"
| "one_char L p [] = []"

definition between :: "char \<Rightarrow> char \<Rightarrow> nat \<Rightarrow> bool" where
  "between lo hi c = (of_char lo \<le> c \<and> c \<le> of_char hi)"

definition literal :: "char \<Rightarrow> pystr \<Rightarrow> pystr list" where
  "literal c s = (case s of [] \<Rightarrow> [] | a # r \<Rightarrow> if a = of_char c then [r] else [])"

definition re_H :: "pylib \<Rightarrow> pystr \<Rightarrow> (nat \<times> pystr) list" where
  "re_H L s = two_chars L (between CHR ''2'' CHR ''2'') (between CHR ''0'' CHR ''3'') s
            @ two_chars L (between CHR ''0'' CHR ''1'') (isdigit L) s
            @ one_char L (isdigit L) s"

definition re_M :: "pylib \<Rightarrow> pystr \<Rightarrow> (nat \<times> pystr) list" where
  "re_M L s = two_chars L (between CHR ''0'' CHR ''5'') (isdigit L) s @ one_char L (isdigit L) s"

definition re_Y :: "pylib \<Rightarrow> pystr \<Rightarrow> (nat \<times> pystr) list" where
  "re_Y L s = (case s of a # b # c # d # r \<Rightarrow>
       if isdigit L a \<and> isdigit L b \<and> isdigit L c \<and> isdigit L d
       then [(1000 * digit_val L a + 100 * digit_val L b + 10 * digit_val L c + digit_val L d, r)]
       else []
     | _ \<Rightarrow> [])"

definition re_m :: "pylib \<Rightarrow> pystr \<Rightarrow> (nat \<times> pystr) list" where
  "re_m L s = two_chars L (between CHR ''1'' CHR ''1'') (between CHR ''0'' CHR ''2'') s
            @ two_chars L (between CHR ''0'' CHR ''0'') (between CHR ''1'' CHR ''9'') s
            @ one_char L (between CHR ''1'' CHR ''9'') s"

definition re_d :: "pylib \<Rightarrow> pystr \<Rightarrow> (nat \<times> pystr) list" where
  "re_d L s = two_chars L (between CHR ''3'' CHR ''3'') (between CHR ''0'' CHR ''1'') s
            @ two_chars L (between CHR ''1'' CHR ''2'') (isdigit L) s
            @ two_chars L (between CHR ''0'' CHR ''0'') (between CHR ''1'' CHR ''9'') s
            @ one_char L (between CHR ''1'' CHR ''9'') s
            @ (case s of a # b # r \<Rightarrow>
                 if a = 32 \<and> between CHR ''1'' CHR ''9'' b then [(digit_val L b, r)] else []
               | _ \<Rightarrow> [])"

text \<open>The matches of \<^verbatim>\<open>%H:%M\<close> at the front of a text, best first.\<close>

definition matches_HM :: "pylib \<Rightarrow> pystr \<Rightarrow> ((nat \<times> nat) \<times> pystr) list" where
  "matches_HM L s =
     List.bind (re_H L s) (\<lambda>(h, r1).
     List.bind (literal CHR '':'' r1) (\<lambda>r2.
     map (\<lambda>(m, r3). ((h, m), r3)) (re_M L r2)))"

text \<open>
  \<^verbatim>\<open>datetime.strptime(s, "%H:%M")\<close>: no match, or text left over after the match, is
  a \<^verbatim>\<open>ValueError\<close>; the result is that time on 1900-01-01.
\<close>

definition date_1900 :: pydate where
  "date_1900 = \<lparr>year = 1900, month = 1, day = 1\<rparr>"

definition strptime_HM :: "pylib \<Rightarrow> pystr \<Rightarrow> py_error + pydatetime" where
  "strptime_HM L s =
     (case matches_HM L s of
        [] \<Rightarrow> Inl ValueError
      | ((h, m), rest) # _ \<Rightarrow>
          if rest \<noteq> [] then Inl ValueError
          else Inr \<lparr>dt_ordinal = toordinal date_1900, dt_hour = int h, dt_minute = int m\<rparr>)"

definition matches_Ymd :: "pylib \<Rightarrow> pystr \<Rightarrow> (pydate \<times> pystr) list" where
  "matches_Ymd L s =
     List.bind (re_Y L s) (\<lambda>(y, r1).
     List.bind (literal CHR ''-'' r1) (\<lambda>r2.
     List.bind (re_m L r2) (\<lambda>(m, r3).
     List.bind (literal CHR ''-'' r3) (\<lambda>r4.
     map (\<lambda>(d, r5). (\<lparr>year = y, month = m, day = d\<rparr>, r5)) (re_d L r4)))))"

text \<open>
  \<^verbatim>\<open>datetime.strptime(s, "%Y-%m-%d").date()\<close>: in addition the three numbers must
  make a date of the calendar.
\<close>

definition strptime_Ymd :: "pylib \<Rightarrow> pystr \<Rightarrow> py_error + pydate" where
  "strptime_Ymd L s =
     (case matches_Ymd L s of
        [] \<Rightarrow> Inl ValueError
      | (d, rest) # _ \<Rightarrow>
          if rest \<noteq> [] then Inl ValueError
          else if \<not> valid_date d then Inl ValueError
          else Inr d)"

text \<open>
  \<^verbatim>\<open>timedelta(minutes=n)\<close> holds at most 999999999 days in either direction, and
  adding it to a \<^verbatim>\<open>datetime\<close> must stay between 0001-01-01 and 9999-12-31; both
  failures are an \<^verbatim>\<open>OverflowError\<close>.
\<close>

definition timedelta_minutes :: "int \<Rightarrow> py_error + int" where
  "timedelta_minutes n =
     (if \<bar>n div 1440\<bar> > 999999999 then Inl OverflowError else Inr n)"

definition datetime_add :: "pydatetime \<Rightarrow> int \<Rightarrow> py_error + pydatetime" where
  "datetime_add dt n =
     (let total = dt_hour dt * 60 + dt_minute dt + n;
          ord = dt_ordinal dt + total div 1440
      in if ord < 1 \<or> MAXORDINAL < ord then Inl OverflowError
         else Inr \<lparr>dt_ordinal = ord, dt_hour = (total mod 1440) div 60,
                   dt_minute = total mod 60\<rparr>)"

definition pad2 :: "nat \<Rightarrow> pystr" where
  "pad2 n = [digit_char (n div 10), digit_char n]"

text \<open>\<^verbatim>\<open>strftime("%I:%M %p")\<close>: the twelve-hour clock with its AM/PM mark.\<close>

definition clock_text :: "nat \<Rightarrow> nat \<Rightarrow> pystr" where
  "clock_text h m =
     (let h12 = (if h mod 12 = 0 then 12 else h mod 12)
      in pad2 h12 @ ustr '':'' @ pad2 m @ ustr '' ''
         @ (if h < 12 then ustr ''AM'' else ustr ''PM''))"

definition strftime_IMp :: "pydatetime \<Rightarrow> pystr" where
  "strftime_IMp dt = clock_text (nat (dt_hour dt)) (nat (dt_minute dt))"

text \<open>\<^verbatim>\<open>str(d)\<close> of a date: \<^verbatim>\<open>YYYY-MM-DD\<close>.\<close>

definition isoformat :: "pydate \<Rightarrow> pystr" where
  "isoformat d =
     [digit_char (year d div 1000), digit_char (year d div 100), digit_char (year d div 10),
      digit_char (year d)] @ ustr ''-'' @ pad2 (month d) @ ustr ''-'' @ pad2 (day d)"

text \<open>
  \<^verbatim>\<open>d + timedelta(days=1)\<close>: Python adds one to the ordinal and raises
  \<^verbatim>\<open>OverflowError\<close> past 9999-12-31; the date with the next ordinal is the next day
  of the calendar.
\<close>

definition next_day :: "pydate \<Rightarrow> pydate" where
  "next_day d =
     (if day d < days_in_month (year d) (month d) then d\<lparr>day := day d + 1\<rparr>
      else if month d < 12 then d\<lparr>month := month d + 1, day := 1\<rparr>
      else \<lparr>year = year d + 1, month = 1, day = 1\<rparr>)"

definition date_plus_one_day :: "pydate \<Rightarrow> py_error + pydate" where
  "date_plus_one_day d =
     (let ord = toordinal d + 1
      in if 0 < ord \<and> ord \<le> MAXORDINAL then Inr (next_day d) else Inl OverflowError)"

section \<open>The data of the application\<close>

record user =
  user_id :: nat
  name :: pystr
  role :: pystr
  availability :: bool
  available_time :: "pystr option"
  max_patients :: int
  avg_consult_time :: int

record appointment =
  appt_id :: nat
  appointment_number :: int
  patient_id :: nat
  doctor_id :: nat
  date :: pystr
  status :: pystr
  prescription :: "pystr option"
  pharmacy_status :: pystr
  estimated_time :: pystr
  created_at :: nat

text \<open>
  The database: the rows of the two tables, in the order of their primary keys.  An
  object loaded by a query is a row of the table; it is named here by its place in the
  list, so that assigning to its attributes and committing is a list update.  An id
  sent in a form is the number the database reads in it.
\<close>

record db =
  users :: "user list"
  appointments :: "appointment list"

definition get_user :: "db \<Rightarrow> nat \<Rightarrow> user option" where
  "get_user s uid = find (\<lambda>u. user_id u = uid) (users s)"

fun row_of :: "nat \<Rightarrow> appointment list \<Rightarrow> nat option" where
  "row_of aid [] = None"
| "row_of aid (a # as) =
     (if appt_id a = aid then Some 0 else map_option Suc (row_of aid as))"

definition next_appt_id :: "appointment list \<Rightarrow> nat" where
  "next_appt_id as = Suc (fold max (map appt_id as) 0)"

text \<open>The rows of the Pending appointments of a doctor on a date, in table order.\<close>

definition pending_rows :: "nat \<Rightarrow> pystr \<Rightarrow> appointment list \<Rightarrow> nat list" where
  "pending_rows did dt as =
     filter (\<lambda>k. doctor_id (as ! k) = did \<and> date (as ! k) = dt
                  \<and> status (as ! k) = ustr ''Pending'')
       [0..<length as]"

section \<open>Estimated time of an appointment\<close>

text \<open>
  The start of the doctor's window as \<^verbatim>\<open>calculate_estimated_time\<close> reads it, and its
  end as \<^verbatim>\<open>is_date_available\<close> reads it: the first, respectively the last, piece of
  \<^verbatim>\<open>available_time\<close> around the en dash, stripped and parsed as \<^verbatim>\<open>%H:%M\<close>.  Both
  readings sit inside a \<^verbatim>\<open>try\<close> block; a missing \<^verbatim>\<open>available_time\<close> is the
  \<^verbatim>\<open>AttributeError\<close> of \<^verbatim>\<open>None.split\<close>.
\<close>

definition window_start :: "pylib \<Rightarrow> user \<Rightarrow> py_error + pydatetime" where
  "window_start L doctor =
     (case available_time doctor of
        None \<Rightarrow> Inl AttributeError
      | Some t \<Rightarrow>
          (case split_on en_dash t of
             [] \<Rightarrow> Inl IndexError
           | start_time_str # _ \<Rightarrow> strptime_HM L (strip start_time_str)))"

definition window_end :: "pylib \<Rightarrow> user \<Rightarrow> py_error + pytime" where
  "window_end L doctor =
     (case available_time doctor of
        None \<Rightarrow> Inl AttributeError
      | Some t \<Rightarrow>
          (case rev (split_on en_dash t) of
             [] \<Rightarrow> Inl IndexError
           | end_time_str # _ \<Rightarrow>
               then_do (strptime_HM L (strip end_time_str)) (\<lambda>dt.
               Inr \<lparr>hour = nat (dt_hour dt), minute = nat (dt_minute dt),
                    second = 0, microsecond = 0\<rparr>)))"

text \<open>The body of the \<^verbatim>\<open>try\<close> block of \<^verbatim>\<open>calculate_estimated_time\<close>.\<close>

definition estimated_time_try :: "pylib \<Rightarrow> user \<Rightarrow> int \<Rightarrow> py_error + pystr" where
  "estimated_time_try L doctor queue_position =
     then_do (window_start L doctor) (\<lambda>start_dt.
     then_do (timedelta_minutes ((queue_position - 1) * avg_consult_time doctor)) (\<lambda>td.
     then_do (datetime_add start_dt td) (\<lambda>estimated_dt.
     Inr (strftime_IMp estimated_dt))))"

definition calculate_estimated_time :: "pylib \<Rightarrow> user \<Rightarrow> int \<Rightarrow> py_error + pystr" where
  "calculate_estimated_time L doctor queue_position =
     (if available_time doctor = None \<or> available_time doctor = Some [] then Inr (ustr ''N/A'')
      else (case estimated_time_try L doctor queue_position of
              Inl e \<Rightarrow> Inr (ustr ''N/A'')
            | Inr s \<Rightarrow> Inr s))"

section \<open>Availability of a date\<close>

text \<open>
  \<^verbatim>\<open>is_date_available(doctor, selected_date)\<close>.  The clock is read twice, by
  \<^verbatim>\<open>date.today()\<close> and by \<^verbatim>\<open>datetime.now().time()\<close>; both readings are arguments
  here.  The parse of \<open>selected_date\<close> stands before the \<^verbatim>\<open>try\<close> block, the parse
  of the window's end inside it.
\<close>

definition is_date_available ::
  "pylib \<Rightarrow> pydate \<Rightarrow> pytime \<Rightarrow> user \<Rightarrow> pystr \<Rightarrow> py_error + bool" where
  "is_date_available L today now_time doctor selected_date =
     then_do (strptime_Ymd L selected_date) (\<lambda>selected.
       if date_less selected today then Inr False
       else if selected = today then
         (case window_end L doctor of
            Inl e \<Rightarrow> Inr True
          | Inr end_time \<Rightarrow> Inr (time_less now_time end_time))
       else Inr True)"

section \<open>Reindexing\<close>

text \<open>
  \<^verbatim>\<open>reindex_appointments(doctor_id, date)\<close>: the Pending rows of that doctor and date,
  ordered by \<^verbatim>\<open>created_at\<close> (rows created at the same instant stay in table order),
  are numbered from 1 and get a fresh estimated time, computed for \<^verbatim>\<open>appt.doctor\<close>,
  the user whose id is the row's \<^verbatim>\<open>doctor_id\<close>.
\<close>

fun reindex_loop ::
  "pylib \<Rightarrow> db \<Rightarrow> int \<Rightarrow> nat list \<Rightarrow> appointment list \<Rightarrow> py_error + appointment list" where
  "reindex_loop L s i [] as = Inr as"
| "reindex_loop L s i (k # ks) as =
     (case get_user s (doctor_id (as ! k)) of
        None \<Rightarrow> Inl AttributeError
      | Some doctor \<Rightarrow>
          then_do (calculate_estimated_time L doctor i) (\<lambda>t.
          reindex_loop L s (i + 1) ks
            (as[k := (as ! k)\<lparr>appointment_number := i, estimated_time := t\<rparr>])))"

definition creation_order :: "nat \<Rightarrow> pystr \<Rightarrow> appointment list \<Rightarrow> nat list" where
  "creation_order did dt as = sort_key (\<lambda>k. created_at (as ! k)) (pending_rows did dt as)"

definition reindex_appointments :: "pylib \<Rightarrow> nat \<Rightarrow> pystr \<Rightarrow> db \<Rightarrow> py_error + db" where
  "reindex_appointments L did dt s =
     (let rows = creation_order did dt (appointments s)
      in then_do (reindex_loop L s 1 rows (appointments s)) (\<lambda>as. Inr (s\<lparr>appointments := as\<rparr>)))"

section \<open>Booking by the patient\<close>

text \<open>What a request is answered with: a redirect to the login page, or a flashed message.\<close>

datatype response =
    To_login
  | Doctor_not_found
  | Cannot_book_this_date
  | Already_have_appointment
  | Schedule_full
  | Appointment_booked
  | Prescription_sent
  | No_message


section \<open>Completion by the doctor\<close>

text \<open>
  The \<^verbatim>\<open>send_prescription\<close> branch of \<^verbatim>\<open>doctor_dashboard\<close> for the logged-in user
  \<open>current_user\<close>.  The completion is committed before the reindexing, which is
  called with the id of the logged-in doctor and the date of the appointment; should
  the reindexing raise, the committed completion stays.
\<close>

definition doctor_dashboard_post ::
  "pylib \<Rightarrow> user \<Rightarrow> nat \<Rightarrow> pystr \<Rightarrow> db \<Rightarrow> (py_error + response) \<times> db" where
  "doctor_dashboard_post L current_user appointment_id prescription_text s =
     (if role current_user \<noteq> ustr ''doctor'' then (Inr To_login, s)
      else
       (case row_of appointment_id (appointments s) of
          None \<Rightarrow> (Inr No_message, s)
        | Some k \<Rightarrow>
            (let appt = (appointments s ! k)\<lparr>prescription := Some prescription_text,
                                             status := ustr ''Completed''\<rparr>;
                 s1 = s\<lparr>appointments := (appointments s)[k := appt]\<rparr>
             in case reindex_appointments L (user_id current_user) (date appt) s1 of
                  Inl e \<Rightarrow> (Inl e, s1)
                | Inr s2 \<Rightarrow> (Inr Prescription_sent, s2))))"

section \<open>Booking by voice\<close>

text \<open>
  \<^verbatim>\<open>normalize_text\<close>: lower case, the filler words deleted one after the other, then
  only letters, digits and white space kept, and the ends stripped.
\<close>

definition normalize_text :: "pylib \<Rightarrow> pystr \<Rightarrow> pystr" where
  "normalize_text L text =
     strip (filter (\<lambda>ch. is_alnum L ch \<or> isspace ch)
       (fold remove_all
          [ustr ''doctor'', ustr ''dr.'', ustr ''dr'', ustr ''appointment'', ustr ''book'',
           ustr ''with'', ustr ''for'']
          (str_lower L text)))"

text \<open>The literal \<^verbatim>\<open>0.4\<close>: the double nearest to two fifths.\<close>

definition float_0_4 :: rat where
  "float_0_4 = 3602879701896397 / 9007199254740992"

text \<open>
  The loop of \<^verbatim>\<open>match_doctor_name\<close> over the doctors, with its two variables
  \<open>best_match\<close> and \<open>highest_score\<close>.  \<^verbatim>\<open>d.name.lower().split()[0]\<close> raises
  \<^verbatim>\<open>IndexError\<close> when the name has no word.
\<close>

fun match_loop ::
  "pylib \<Rightarrow> pystr \<Rightarrow> user list \<Rightarrow> user option \<Rightarrow> rat \<Rightarrow> py_error + user option \<times> rat" where
  "match_loop L command_clean [] best_match highest_score = Inr (best_match, highest_score)"
| "match_loop L command_clean (d # doctors) best_match highest_score =
     (let doc_clean = normalize_text L (name d);
          r = sequence_ratio L doc_clean command_clean
      in case split_ws (str_lower L (name d)) of
           [] \<Rightarrow> Inl IndexError
         | tok # toks \<Rightarrow>
             (let r' = (if str_in tok command_clean \<or> str_in (last (tok # toks)) command_clean
                        then float_add L r float_0_4 else r)
              in if r' > highest_score
                 then match_loop L command_clean doctors (Some d) r'
                 else match_loop L command_clean doctors best_match highest_score))"

definition match_doctor_name :: "pylib \<Rightarrow> db \<Rightarrow> pystr \<Rightarrow> py_error + user option" where
  "match_doctor_name L s command =
     (let doctors = filter (\<lambda>u. role u = ustr ''doctor'') (users s);
          command_clean = normalize_text L command
      in then_do (match_loop L command_clean doctors None 0) (\<lambda>(best_match, highest_score).
         if best_match \<noteq> None \<and> highest_score \<ge> float_0_4 then Inr best_match else Inr None))"

text \<open>The date named by a command (\<^verbatim>\<open>recognize_and_book\<close>, under "Date parsing").\<close>

definition resolve_relative_date :: "pystr \<Rightarrow> pydate \<Rightarrow> py_error + pydate" where
  "resolve_relative_date command today =
     (if str_in (ustr ''tomorrow'') command then date_plus_one_day today
      else if str_in (ustr ''today'') command \<or> str_in (ustr ''aaj'') command then Inr today
      else date_plus_one_day today)"

datatype voice_outcome =
    Voice_stopped
  | Voice_doctor_not_found
  | Voice_schedule_full
  | Voice_booked
  | Voice_error py_error

text \<open>
  What \<^verbatim>\<open>recognize_and_book\<close> does once it has a doctor and a date: it counts the
  Pending appointments of that doctor on that date and, below the doctor's limit,
  adds the appointment.
\<close>

definition book_matched_doctor ::
  "pylib \<Rightarrow> nat \<Rightarrow> nat \<Rightarrow> user \<Rightarrow> pydate \<Rightarrow> db \<Rightarrow> voice_outcome \<times> db" where
  "book_matched_doctor L utcnow patient matched_doctor date_selected s =
     (let count = int (length (pending_rows (user_id matched_doctor) (isoformat date_selected)
                                 (appointments s)))
      in if count \<ge> max_patients matched_doctor then (Voice_schedule_full, s)
         else
           (let queue_position = count + 1
            in case calculate_estimated_time L matched_doctor queue_position of
                 Inl e \<Rightarrow> (Voice_error e, s)
               | Inr est \<Rightarrow>
                   (Voice_booked,
                    s\<lparr>appointments := appointments s @
                      [\<lparr>appt_id = next_appt_id (appointments s),
                        appointment_number = queue_position,
                        patient_id = patient,
                        doctor_id = user_id matched_doctor,
                        date = isoformat date_selected,
                        status = ustr ''Pending'',
                        prescription = None,
                        pharmacy_status = ustr ''Not Processed'',
                        estimated_time = est,
                        created_at = utcnow\<rparr>]\<rparr>)))"

text \<open>
  One pass of the loop of \<^verbatim>\<open>recognize_and_book\<close> over the text \<open>heard\<close> that the
  speech recogniser returned.  Every exception is caught by the loop, which then
  listens again.
\<close>

definition recognize_and_book ::
  "pylib \<Rightarrow> pydate \<Rightarrow> nat \<Rightarrow> nat \<Rightarrow> pystr \<Rightarrow> db \<Rightarrow> voice_outcome \<times> db" where
  "recognize_and_book L today utcnow patient heard s =
     (let command = str_lower L heard
      in if list_ex (\<lambda>word. str_in word command)
              [ustr ''stop'', ustr ''exit'', ustr ''cancel'', ustr ''close'']
         then (Voice_stopped, s)
         else
           (case match_doctor_name L s command of
              Inl e \<Rightarrow> (Voice_error e, s)
            | Inr None \<Rightarrow> (Voice_doctor_not_found, s)
            | Inr (Some matched_doctor) \<Rightarrow>
                (case resolve_relative_date command today of
                   Inl e \<Rightarrow> (Voice_error e, s)
                 | Inr date_selected \<Rightarrow>
                     book_matched_doctor L utcnow patient matched_doctor date_selected s)))"

section \<open>Notions used in the statements\<close>

definition minute_of_day :: "pydatetime \<Rightarrow> int" where
  "minute_of_day dt = dt_hour dt * 60 + dt_minute dt"

definition clock_of_minute :: "int \<Rightarrow> pystr" where
  "clock_of_minute t = clock_text (nat (t div 60)) (nat (t mod 60))"

text \<open>
  Moving \<open>n\<close> minutes from the date-time \<open>dt\<close> stays between 0001-01-01 and
  9999-12-31.
\<close>

definition within_datetime_range :: "pydatetime \<Rightarrow> int \<Rightarrow> bool" where
  "within_datetime_range dt n =
     (1 \<le> dt_ordinal dt + (minute_of_day dt + n) div 1440
      \<and> dt_ordinal dt + (minute_of_day dt + n) div 1440 \<le> MAXORDINAL)"

text \<open>
  Sample data.  The library \<open>py_sample\<close> has the decimal digits of Unicode 14 (the
  zeros beyond ASCII), and stand-ins for the rest: lower case and the test for letters
  and digits as they are on ASCII text, a ratio that tells equal texts from different
  ones, and exact addition.
\<close>

definition py_sample :: pylib where
  "py_sample = \<lparr>
     nd_zeros = [1632, 1776, 1984, 2406, 2534, 2662, 2790, 2918, 3046, 3174, 3302, 3430,
       3558, 3664, 3792, 3872, 4160, 4240, 6112, 6160, 6470, 6608, 6784, 6800, 6992, 7088,
       7232, 7248, 42528, 43216, 43264, 43472, 43504, 43600, 44016, 65296, 66720, 68912,
       69734, 69872, 69942, 70096, 70384, 70736, 70864, 71248, 71360, 71472, 71904, 72016,
       72784, 73040, 73120, 92768, 92864, 93008, 120782, 120792, 120802, 120812, 120822,
       123200, 123632, 125264, 130032],
     str_lower = map (\<lambda>c. if 65 \<le> c \<and> c \<le> 90 then c + 32 else c),
     is_alnum = (\<lambda>c. (48 \<le> c \<and> c \<le> 57) \<or> (65 \<le> c \<and> c \<le> 90) \<or> (97 \<le> c \<and> c \<le> 122)),
     sequence_ratio = (\<lambda>a b. if a = b then 1 else 0),
     float_add = (\<lambda>a b. a + b)\<rparr>"

definition dr_smith :: user where
  "dr_smith = \<lparr>user_id = 1, name = ustr ''John Smith'', role = ustr ''doctor'',
     availability = True, available_time = Some (ustr ''09:00'' @ en_dash @ ustr ''17:00''),
     max_patients = 5, avg_consult_time = 15\<rparr>"

definition dr_night :: user where
  "dr_night = \<lparr>user_id = 2, name = ustr ''Alice Smithson'', role = ustr ''doctor'',
     availability = False, available_time = Some (ustr ''23:50'' @ en_dash @ ustr ''23:59''),
     max_patients = 5, avg_consult_time = 15\<rparr>"

definition patient_3 :: user where
  "patient_3 = \<lparr>user_id = 3, name = ustr ''Pat'', role = ustr ''patient'',
     availability = True, available_time = Some (ustr ''09:00'' @ en_dash @ ustr ''17:00''),
     max_patients = 5, avg_consult_time = 15\<rparr>"

definition dr_unparsed :: user where
  "dr_unparsed = \<lparr>user_id = 4, name = ustr ''Maya Rao'', role = ustr ''doctor'',
     availability = True, available_time = Some (ustr ''9am to 5pm''),
     max_patients = 5, avg_consult_time = 15\<rparr>"

definition dr_nbsp :: user where
  "dr_nbsp = \<lparr>user_id = 5, name = ustr ''Lena Ortiz'', role = ustr ''doctor'',
     availability = True,
     available_time = Some (ustr ''09:00'' @ [160] @ en_dash @ ustr ''17:00''),
     max_patients = 5, avg_consult_time = 15\<rparr>"

definition march_10 :: pydate where
  "march_10 = \<lparr>year = 2025, month = 3, day = 10\<rparr>"

definition noon :: pytime where
  "noon = \<lparr>hour = 12, minute = 0, second = 0, microsecond = 0\<rparr>"


text \<open>
  How many Pending appointments a doctor has on a date, and whether a patient has an
  appointment, of whatever status, with a doctor on a date.
\<close>

definition pending_count :: "db \<Rightarrow> nat \<Rightarrow> pystr \<Rightarrow> int" where
  "pending_count s did dt =
     int (length (filter (\<lambda>a. doctor_id a = did \<and> date a = dt \<and> status a = ustr ''Pending'')
                    (appointments s)))"





text \<open>
  The text that \<^verbatim>\<open>calculate_estimated_time\<close> returns; the queue numbers of the Pending
  appointments of a doctor on a date, in table order; and invariant I1: those numbers
  are 1 to their count, each once.
\<close>

definition estimated_text :: "pylib \<Rightarrow> user \<Rightarrow> int \<Rightarrow> pystr" where
  "estimated_text L doctor p =
     (case calculate_estimated_time L doctor p of Inr t \<Rightarrow> t | Inl e \<Rightarrow> ustr ''N/A'')"

definition pending_numbers :: "db \<Rightarrow> nat \<Rightarrow> pystr \<Rightarrow> int list" where
  "pending_numbers s did dt =
     map appointment_number
       (filter (\<lambda>a. doctor_id a = did \<and> date a = dt \<and> status a = ustr ''Pending'')
          (appointments s))"

definition queue_contiguous :: "db \<Rightarrow> nat \<Rightarrow> pystr \<Rightarrow> bool" where
  "queue_contiguous s did dt = (sort (pending_numbers s did dt) = [1..pending_count s did dt])"

text \<open>
  More sample data: a second patient, and tables in which doctor 1 has one, and two,
  Pending appointments on 2025-03-11.
\<close>

definition patient_6 :: user where
  "patient_6 = \<lparr>user_id = 6, name = ustr ''Sam'', role = ustr ''patient'',
     availability = True, available_time = Some (ustr ''09:00'' @ en_dash @ ustr ''17:00''),
     max_patients = 5, avg_consult_time = 15\<rparr>"

definition appt_1 :: appointment where
  "appt_1 = \<lparr>appt_id = 1, appointment_number = 1, patient_id = 3, doctor_id = 1,
     date = ustr ''2025-03-11'', status = ustr ''Pending'', prescription = None,
     pharmacy_status = ustr ''Not Processed'', estimated_time = ustr ''09:00 AM'',
     created_at = 50\<rparr>"

definition appt_2 :: appointment where
  "appt_2 = \<lparr>appt_id = 2, appointment_number = 2, patient_id = 6, doctor_id = 1,
     date = ustr ''2025-03-11'', status = ustr ''Pending'', prescription = None,
     pharmacy_status = ustr ''Not Processed'', estimated_time = ustr ''09:15 AM'',
     created_at = 60\<rparr>"

definition db_pending :: db where
  "db_pending = \<lparr>users = [dr_smith, dr_night, patient_3, patient_6], appointments = [appt_1]\<rparr>"

definition db_two_pending :: db where
  "db_two_pending =
     \<lparr>users = [dr_smith, dr_night, patient_3, patient_6], appointments = [appt_1, appt_2]\<rparr>"

definition march_11 :: pydate where
  "march_11 = \<lparr>year = 2025, month = 3, day = 11\<rparr>"

section \<open>Facts about parsing and date-time arithmetic\<close>

lemma toordinal_1900: "toordinal date_1900 = 693596"
  by (simp add: date_1900_def toordinal_def days_before_year_def days_before_month_def)

lemma MAXORDINAL_value: "MAXORDINAL = 3652059"
  by (simp add: MAXORDINAL_def date_max_def toordinal_def days_before_year_def
      days_before_month_def days_in_month_def is_leap_def MAXYEAR_def)

lemma decimal_le_9:
  assumes "decimal L c = Some v"
  shows "v \<le> 9"
proof (cases "48 \<le> c \<and> c \<le> 57")
  case True
  with assms show ?thesis by (auto simp: decimal_def)
next
  case False
  with assms obtain z where "find (\<lambda>z. z \<le> c \<and> c < z + 10) (nd_zeros L) = Some z" and v: "v = c - z"
    by (auto simp: decimal_def)
  then have "z \<le> c \<and> c < z + 10"
    by (auto simp: find_Some_iff)
  with v show ?thesis by auto
qed

lemma digit_val_le_9: "digit_val L c \<le> 9"
  by (auto simp: digit_val_def decimal_le_9 split: option.splits)

lemma digit_val_between:
  assumes "between lo hi c" "48 \<le> (of_char lo :: nat)" "(of_char hi :: nat) \<le> 57"
  shows "digit_val L c = c - 48 \<and> c \<le> of_char hi"
  using assms by (auto simp: between_def digit_val_def decimal_def)

lemma two_chars_bound:
  assumes "(v, r) \<in> set (two_chars L p q s)"
  obtains a b where "s = a # b # r" "p a" "q b" "v = 10 * digit_val L a + digit_val L b"
  using assms by (cases "(L, p, q, s)" rule: two_chars.cases) (auto split: if_splits)

lemma one_char_bound:
  assumes "(v, r) \<in> set (one_char L p s)"
  obtains a where "s = a # r" "p a" "v = digit_val L a"
  using assms by (cases "(L, p, s)" rule: one_char.cases) (auto split: if_splits)

lemma re_H_bound:
  assumes "(h, r) \<in> set (re_H L s)"
  shows "h \<le> 23"
proof -
  from assms consider
      (a) "(h, r) \<in> set (two_chars L (between CHR ''2'' CHR ''2'') (between CHR ''0'' CHR ''3'') s)"
    | (b) "(h, r) \<in> set (two_chars L (between CHR ''0'' CHR ''1'') (isdigit L) s)"
    | (c) "(h, r) \<in> set (one_char L (isdigit L) s)"
    by (auto simp: re_H_def)
  then show ?thesis
  proof cases
    case a
    then obtain x y where p: "between CHR ''2'' CHR ''2'' x" "between CHR ''0'' CHR ''3'' y"
      and h: "h = 10 * digit_val L x + digit_val L y"
      by (rule two_chars_bound)
    have "digit_val L x = x - 48" "x \<le> 50"
      using digit_val_between [OF p(1), of L] by simp_all
    moreover have "digit_val L y = y - 48" "y \<le> 51"
      using digit_val_between [OF p(2), of L] by simp_all
    ultimately show ?thesis using h by simp
  next
    case b
    then obtain x y where p: "between CHR ''0'' CHR ''1'' x"
      and h: "h = 10 * digit_val L x + digit_val L y"
      by (rule two_chars_bound)
    have "digit_val L x = x - 48" "x \<le> 49"
      using digit_val_between [OF p, of L] by simp_all
    then show ?thesis using h digit_val_le_9 [of L y] by simp
  next
    case c
    then obtain x where "h = digit_val L x" by (rule one_char_bound)
    then show ?thesis using digit_val_le_9 [of L x] by simp
  qed
qed

lemma re_M_bound:
  assumes "(m, r) \<in> set (re_M L s)"
  shows "m \<le> 59"
proof -
  from assms consider
      (a) "(m, r) \<in> set (two_chars L (between CHR ''0'' CHR ''5'') (isdigit L) s)"
    | (b) "(m, r) \<in> set (one_char L (isdigit L) s)"
    by (auto simp: re_M_def)
  then show ?thesis
  proof cases
    case a
    then obtain x y where p: "between CHR ''0'' CHR ''5'' x"
      and h: "m = 10 * digit_val L x + digit_val L y"
      by (rule two_chars_bound)
    have "digit_val L x = x - 48" "x \<le> 53"
      using digit_val_between [OF p, of L] by simp_all
    then show ?thesis using h digit_val_le_9 [of L y] by simp
  next
    case b
    then obtain x where "m = digit_val L x" by (rule one_char_bound)
    then show ?thesis using digit_val_le_9 [of L x] by simp
  qed
qed

lemma matches_HM_bound: "((h, m), r) \<in> set (matches_HM L s) \<Longrightarrow> h \<le> 23 \<and> m \<le> 59"
  unfolding matches_HM_def List.bind_def
  by (auto dest: re_H_bound re_M_bound)

lemma strptime_HM_range:
  assumes "strptime_HM L s = Inr dt"
  shows "dt_ordinal dt = 693596 \<and> 0 \<le> dt_hour dt \<and> dt_hour dt \<le> 23
    \<and> 0 \<le> dt_minute dt \<and> dt_minute dt \<le> 59"
proof (cases "matches_HM L s")
  case Nil
  with assms show ?thesis by (simp add: strptime_HM_def)
next
  case (Cons x xs)
  obtain h m r where x: "x = ((h, m), r)" by (metis prod.collapse)
  have "((h, m), r) \<in> set (matches_HM L s)" using Cons x by simp
  then have "h \<le> 23 \<and> m \<le> 59" by (rule matches_HM_bound)
  with assms Cons x toordinal_1900 show ?thesis
    by (auto simp: strptime_HM_def split: if_splits)
qed

lemma strptime_HM_empty: "strptime_HM L [] = Inl ValueError"
  by (simp add: strptime_HM_def matches_HM_def re_H_def)

lemma window_start_range:
  assumes "window_start L doctor = Inr start"
  shows "dt_ordinal start = 693596" and "0 \<le> minute_of_day start" and "minute_of_day start < 1440"
proof -
  from assms obtain s where "strptime_HM L s = Inr start"
    by (auto simp: window_start_def split: option.splits list.splits)
  from strptime_HM_range [OF this]
  show "dt_ordinal start = 693596" and "0 \<le> minute_of_day start" and "minute_of_day start < 1440"
    by (auto simp: minute_of_day_def)
qed

lemma window_start_nonempty:
  assumes st: "window_start L doctor = Inr start"
  obtains t where "available_time doctor = Some t" and "t \<noteq> []"
proof -
  from st obtain t where av: "available_time doctor = Some t"
    by (cases "available_time doctor") (auto simp: window_start_def)
  have "t \<noteq> []"
  proof
    assume "t = []"
    with st av have "strptime_HM L (strip []) = Inr start"
      by (simp add: window_start_def split_on.simps)
    then show False by (simp add: strip_def strptime_HM_empty)
  qed
  with av that show ?thesis by blast
qed

lemma datetime_add_time_of_day:
  assumes "datetime_add dt n = Inr dt'"
  shows "0 \<le> dt_hour dt' \<and> dt_hour dt' < 24 \<and> 0 \<le> dt_minute dt' \<and> dt_minute dt' < 60"
proof -
  define total where "total = dt_hour dt * 60 + dt_minute dt + n"
  have "0 \<le> total mod 1440" "total mod 1440 < 1440" by simp_all
  then have "0 \<le> total mod 1440 div 60 \<and> total mod 1440 div 60 < 24" by auto
  moreover have "0 \<le> total mod 60 \<and> total mod 60 < 60" by simp
  ultimately show ?thesis
    using assms by (auto simp: datetime_add_def Let_def total_def split: if_splits)
qed


lemma estimate_in_range:
  assumes st: "window_start L doctor = Inr start"
    and rng: "within_datetime_range start ((p - 1) * avg_consult_time doctor)"
  shows "calculate_estimated_time L doctor p =
     Inr (clock_of_minute ((minute_of_day start + (p - 1) * avg_consult_time doctor) mod 1440))"
proof -
  define n where "n = (p - 1) * avg_consult_time doctor"
  define total where "total = minute_of_day start + n"
  note ord = window_start_range(1) [OF st] and hm = window_start_range(2,3) [OF st]
  from rng have r1: "1 \<le> 693596 + total div 1440" and r2: "693596 + total div 1440 \<le> 3652059"
    by (simp_all add: within_datetime_range_def ord total_def n_def MAXORDINAL_value)
  have "total div 1440 - 1 \<le> n div 1440 \<and> n div 1440 \<le> total div 1440"
    using hm unfolding total_def by (auto simp: zdiv_mono1)
  with r1 r2 have "\<bar>n div 1440\<bar> \<le> 999999999" by linarith
  then have td: "timedelta_minutes n = Inr n" by (simp add: timedelta_minutes_def)
  have add: "datetime_add start n =
     Inr \<lparr>dt_ordinal = dt_ordinal start + total div 1440,
          dt_hour = (total mod 1440) div 60, dt_minute = total mod 60\<rparr>"
    using r1 r2 ord by (simp add: datetime_add_def Let_def MAXORDINAL_value total_def minute_of_day_def)
  have m60: "total mod 1440 mod 60 = total mod 60"
    by (simp add: mod_mod_cancel)
  have tr: "estimated_time_try L doctor p = Inr (clock_of_minute (total mod 1440))"
    using st td add
    by (simp add: estimated_time_try_def then_do_def n_def [symmetric] strftime_IMp_def clock_of_minute_def m60)
  from window_start_nonempty [OF st] obtain t where "available_time doctor = Some t" "t \<noteq> []"
    by blast
  with tr show ?thesis
    by (simp add: calculate_estimated_time_def total_def n_def)
qed

lemma estimate_out_of_range:
  assumes st: "window_start L doctor = Inr start"
    and rng: "\<not> within_datetime_range start ((p - 1) * avg_consult_time doctor)"
  shows "calculate_estimated_time L doctor p = Inr (ustr ''N/A'')"
proof -
  have "datetime_add start ((p - 1) * avg_consult_time doctor) = Inl OverflowError"
    using rng by (auto simp: datetime_add_def within_datetime_range_def minute_of_day_def Let_def)
  then have "\<exists>e. estimated_time_try L doctor p = Inl e"
    using st by (auto simp: estimated_time_try_def then_do_def timedelta_minutes_def split: sum.splits if_splits)
  then show ?thesis
    by (auto simp: calculate_estimated_time_def)
qed

lemma within_range_start:
  assumes "window_start L doctor = Inr start"
  shows "within_datetime_range start 0"
  using window_start_range [OF assms]
  by (simp add: within_datetime_range_def MAXORDINAL_value)

lemma length_clock_text: "length (clock_text h m) = 8"
  by (simp add: clock_text_def pad2_def Let_def ustr_def)

lemma clock_text_not_NA: "clock_text h m \<noteq> ustr ''N/A''"
  using length_clock_text [of h m] by (auto simp: ustr_def)

lemmas parse_simps = strptime_HM_def matches_HM_def re_H_def re_M_def between_def literal_def
  isdigit_def digit_val_def decimal_def strip_def isspace_def ustr_def en_dash_def
  split_on.simps toordinal_1900

lemma ws_smith:
  "window_start py_sample dr_smith = Inr \<lparr>dt_ordinal = 693596, dt_hour = 9, dt_minute = 0\<rparr>"
  by (simp add: window_start_def dr_smith_def parse_simps)


lemma ws_unparsed: "window_start py_sample dr_unparsed = Inl ValueError"
  by (simp add: window_start_def dr_unparsed_def parse_simps py_sample_def)

lemma ws_nbsp:
  "window_start py_sample dr_nbsp = Inr \<lparr>dt_ordinal = 693596, dt_hour = 9, dt_minute = 0\<rparr>"
  by (simp add: window_start_def dr_nbsp_def parse_simps)

section \<open>The estimated time (claims C3 and C4)\<close>

lemma clock_0945: "clock_of_minute 585 = ustr ''09:45 AM''"
  by (simp add: clock_of_minute_def clock_text_def pad2_def digit_char_def ustr_def)


text \<open>
  Claim C3, as amended.  Let the start of the doctor's window parse to \<open>start\<close>, and
  call a position \<open>p\<close> in range when the date-time 1900-01-01 \<open>start\<close> moved by
  \<open>(p - 1) * avg_consult_time\<close> minutes lies between the years 1 and 9999.  Then
  position 1 is given the window start itself; a position \<open>p\<close> in range is given the
  time of day \<open>(start + (p - 1) * avg_consult_time) mod 24 h\<close>; when position \<open>p + 1\<close>
  is in range, it is given the time of day \<open>avg_consult_time\<close> minutes after the one
  of that formula at \<open>p\<close>, again modulo 24 hours; and a position out of range is
  given the text \<^verbatim>\<open>N/A\<close>.  The end of the window plays no part.
\<close>

theorem estimate_time_formula:
  assumes "window_start L doctor = Inr start"
  shows "calculate_estimated_time L doctor 1 = Inr (clock_of_minute (minute_of_day start))
    \<and> (within_datetime_range start ((p - 1) * avg_consult_time doctor) \<longrightarrow>
         calculate_estimated_time L doctor p =
           Inr (clock_of_minute ((minute_of_day start + (p - 1) * avg_consult_time doctor) mod 1440)))
    \<and> (within_datetime_range start (p * avg_consult_time doctor) \<longrightarrow>
         calculate_estimated_time L doctor (p + 1) =
           Inr (clock_of_minute (((minute_of_day start + (p - 1) * avg_consult_time doctor) mod 1440
                                   + avg_consult_time doctor) mod 1440)))
    \<and> (\<not> within_datetime_range start ((p - 1) * avg_consult_time doctor) \<longrightarrow>
         calculate_estimated_time L doctor p = Inr (ustr ''N/A''))"
proof (intro conjI impI)
  have "minute_of_day start mod 1440 = minute_of_day start"
    using window_start_range(2,3) [OF assms] by simp
  moreover have "within_datetime_range start ((1 - 1) * avg_consult_time doctor)"
    using within_range_start [OF assms] by simp
  ultimately show "calculate_estimated_time L doctor 1 = Inr (clock_of_minute (minute_of_day start))"
    using estimate_in_range [OF assms, of 1] by simp
next
  assume "within_datetime_range start ((p - 1) * avg_consult_time doctor)"
  then show "calculate_estimated_time L doctor p =
      Inr (clock_of_minute ((minute_of_day start + (p - 1) * avg_consult_time doctor) mod 1440))"
    by (rule estimate_in_range [OF assms])
next
  assume "within_datetime_range start (p * avg_consult_time doctor)"
  then have "within_datetime_range start ((p + 1 - 1) * avg_consult_time doctor)" by simp
  from estimate_in_range [OF assms this]
  have "calculate_estimated_time L doctor (p + 1) =
      Inr (clock_of_minute ((minute_of_day start + p * avg_consult_time doctor) mod 1440))"
    by simp
  moreover have "(minute_of_day start + p * avg_consult_time doctor) mod 1440 =
      ((minute_of_day start + (p - 1) * avg_consult_time doctor) mod 1440 + avg_consult_time doctor) mod 1440"
    by (simp add: algebra_simps mod_simps)
  ultimately show "calculate_estimated_time L doctor (p + 1) =
      Inr (clock_of_minute (((minute_of_day start + (p - 1) * avg_consult_time doctor) mod 1440
                              + avg_consult_time doctor) mod 1440))"
    by simp
next
  assume "\<not> within_datetime_range start ((p - 1) * avg_consult_time doctor)"
  then show "calculate_estimated_time L doctor p = Inr (ustr ''N/A'')"
    by (rule estimate_out_of_range [OF assms])
qed


theorem estimate_time_formula_witness:
  "window_start py_sample dr_smith = Inr \<lparr>dt_ordinal = 693596, dt_hour = 9, dt_minute = 0\<rparr>
   \<and> within_datetime_range \<lparr>dt_ordinal = 693596, dt_hour = 9, dt_minute = 0\<rparr>
        ((4 - 1) * avg_consult_time dr_smith)
   \<and> calculate_estimated_time py_sample dr_smith 4 = Inr (ustr ''09:45 AM'')"
proof -
  have r: "within_datetime_range \<lparr>dt_ordinal = 693596, dt_hour = 9, dt_minute = 0\<rparr>
      ((4 - 1) * avg_consult_time dr_smith)"
    by (simp add: within_datetime_range_def minute_of_day_def MAXORDINAL_value dr_smith_def)
  have "calculate_estimated_time py_sample dr_smith 4 =
      Inr (clock_of_minute ((minute_of_day \<lparr>dt_ordinal = 693596, dt_hour = 9, dt_minute = 0\<rparr>
            + (4 - 1) * avg_consult_time dr_smith) mod 1440))"
    using estimate_time_formula [OF ws_smith, of 4] r by blast
  also have "(minute_of_day \<lparr>dt_ordinal = 693596, dt_hour = 9, dt_minute = 0\<rparr>
      + (4 - 1) * avg_consult_time dr_smith) mod 1440 = 585"
    by (simp add: minute_of_day_def dr_smith_def)
  finally show ?thesis using ws_smith r clock_0945 by simp
qed


text \<open>
  The claim as first stated fails for a very late position: the sum no longer is a
  date-time of Python and the handler of the \<^verbatim>\<open>try\<close> block answers \<^verbatim>\<open>N/A\<close>.
\<close>

theorem estimate_overflow_counterexample:
  "window_start py_sample dr_smith = Inr \<lparr>dt_ordinal = 693596, dt_hour = 9, dt_minute = 0\<rparr>
   \<and> (1::int) \<le> 1000000000
   \<and> calculate_estimated_time py_sample dr_smith 1000000000 = Inr (ustr ''N/A'')
   \<and> calculate_estimated_time py_sample dr_smith 1000000000 \<noteq>
       Inr (clock_of_minute ((minute_of_day \<lparr>dt_ordinal = 693596, dt_hour = 9, dt_minute = 0\<rparr>
             + (1000000000 - 1) * avg_consult_time dr_smith) mod 1440))"
proof -
  have "\<not> within_datetime_range \<lparr>dt_ordinal = 693596, dt_hour = 9, dt_minute = 0\<rparr>
      ((1000000000 - 1) * avg_consult_time dr_smith)"
    by (simp add: within_datetime_range_def minute_of_day_def MAXORDINAL_value dr_smith_def)
  from estimate_out_of_range [OF ws_smith this]
  have na: "calculate_estimated_time py_sample dr_smith 1000000000 = Inr (ustr ''N/A'')" .
  have m: "(minute_of_day \<lparr>dt_ordinal = 693596, dt_hour = 9, dt_minute = 0\<rparr>
             + (1000000000 - 1) * avg_consult_time dr_smith) mod 1440 = 45"
    by (simp add: minute_of_day_def dr_smith_def)
  have "clock_of_minute 45 \<noteq> ustr ''N/A''"
    by (simp add: clock_of_minute_def clock_text_not_NA)
  then have "calculate_estimated_time py_sample dr_smith 1000000000 \<noteq> Inr (clock_of_minute 45)"
    unfolding na by simp
  then show ?thesis unfolding m using ws_smith na by simp
qed


text \<open>
  Claim C4.  For every doctor and every queue position
  \<^verbatim>\<open>calculate_estimated_time\<close> returns, and what it returns is the text \<^verbatim>\<open>N/A\<close>
  or the text of a time of day; when the start of the window is missing or does not
  parse, it is \<^verbatim>\<open>N/A\<close>.
\<close>

theorem estimate_never_raises:
  "\<exists>t. calculate_estimated_time L doctor queue_position = Inr t \<and>
        (t = ustr ''N/A'' \<or> (\<exists>h m. h < 24 \<and> m < 60 \<and> t = clock_text h m)) \<and>
        ((\<exists>e. window_start L doctor = Inl e) \<longrightarrow> t = ustr ''N/A'')"
proof (cases "estimated_time_try L doctor queue_position")
  case (Inl e)
  then show ?thesis by (simp add: calculate_estimated_time_def)
next
  case (Inr t)
  then obtain start_dt td est where st: "window_start L doctor = Inr start_dt"
    and "timedelta_minutes ((queue_position - 1) * avg_consult_time doctor) = Inr td"
    and est: "datetime_add start_dt td = Inr est" and t: "t = strftime_IMp est"
    by (auto simp: estimated_time_try_def then_do_def split: sum.splits)
  from datetime_add_time_of_day [OF est]
  have "nat (dt_hour est) < 24" "nat (dt_minute est) < 60" by auto
  then have tod: "\<exists>h m. h < 24 \<and> m < 60 \<and> t = clock_text h m"
    unfolding t strftime_IMp_def by blast
  from window_start_nonempty [OF st] obtain w where "available_time doctor = Some w" "w \<noteq> []"
    by blast
  then show ?thesis using Inr tod st by (simp add: calculate_estimated_time_def)
qed


theorem estimate_never_raises_witness:
  "(\<exists>e. window_start py_sample dr_unparsed = Inl e)
   \<and> calculate_estimated_time py_sample dr_unparsed 3 = Inr (ustr ''N/A'')"
proof -
  have h: "\<exists>e. window_start py_sample dr_unparsed = Inl e" using ws_unparsed by simp
  with estimate_never_raises [of py_sample dr_unparsed 3] show ?thesis by auto
qed

text \<open>White space of Unicode around the start is stripped like a blank.\<close>

lemma estimate_nbsp: "calculate_estimated_time py_sample dr_nbsp 1 = Inr (ustr ''09:00 AM'')"
proof -
  have "clock_of_minute 540 = ustr ''09:00 AM''"
    by (simp add: clock_of_minute_def clock_text_def pad2_def digit_char_def ustr_def)
  moreover have "within_datetime_range \<lparr>dt_ordinal = 693596, dt_hour = 9, dt_minute = 0\<rparr>
      ((1 - 1) * avg_consult_time dr_nbsp)"
    by (simp add: within_datetime_range_def minute_of_day_def MAXORDINAL_value)
  ultimately show ?thesis
    using estimate_in_range [OF ws_nbsp, of 1] by (simp add: minute_of_day_def)
qed

section \<open>Availability of a date (claims C5 and C10)\<close>

lemma date_less_cases: "date_less a b \<or> a = b \<or> date_less b a"
  by (cases a; cases b) (auto simp: date_less_def)







lemmas date_parse_simps = strptime_Ymd_def matches_Ymd_def re_Y_def re_m_def re_d_def
  valid_date_def days_in_month_def is_leap_def MAXYEAR_def



lemma parse_slashes: "strptime_Ymd py_sample (ustr ''10/03/2025'') = Inl ValueError"
  by (simp add: date_parse_simps parse_simps)






text \<open>
  Claim C10.  \<^verbatim>\<open>is_date_available\<close> returns only for a requested date that parses as
  \<^verbatim>\<open>%Y-%m-%d\<close>: for any other text the \<^verbatim>\<open>ValueError\<close> of \<^verbatim>\<open>strptime\<close> leaves the
  function, whoever the doctor is, since the parse stands before the \<^verbatim>\<open>try\<close>
  block.
\<close>

theorem malformed_date_raises:
  "(strptime_Ymd L selected_date = Inl e \<longrightarrow>
      is_date_available L today now_time doctor selected_date = Inl e)
   \<and> ((\<exists>b. is_date_available L today now_time doctor selected_date = Inr b)
        \<longleftrightarrow> (\<exists>d. strptime_Ymd L selected_date = Inr d))"
  by (cases "strptime_Ymd L selected_date")
     (auto simp: is_date_available_def then_do_def split: sum.splits)


theorem malformed_date_raises_witness:
  "strptime_Ymd py_sample (ustr ''10/03/2025'') = Inl ValueError
   \<and> is_date_available py_sample march_10 noon dr_smith (ustr ''10/03/2025'') = Inl ValueError
   \<and> \<not> (\<exists>b. is_date_available py_sample march_10 noon dr_smith (ustr ''10/03/2025'') = Inr b)"
  using malformed_date_raises [of py_sample "ustr ''10/03/2025''" ValueError march_10 noon dr_smith] parse_slashes
  by simp

section \<open>The date of a spoken command (claim C8)\<close>






















section \<open>Booking by the patient (claim C1)\<close>



























end
